theory Spec2Isabelle
  imports Complex_Main "HOL-Library.Sublist" "HOL-Library.Word"
begin

section \<open>Strings and values of the build script\<close>

text \<open>
  \<^verbatim>\<open>build.js\<close> works on JavaScript strings. A string is modelled as a \<^typ>\<open>string\<close>, each
  \<^typ>\<open>char\<close> standing for one code unit below 256. The character classes of the regular
  expressions are read off the ECMAScript definition restricted to that range:
  \<^verbatim>\<open>\w\<close> is \<^verbatim>\<open>[A-Za-z0-9_]\<close>, and \<^verbatim>\<open>\s\<close> is tab, line feed, vertical tab, form feed,
  carriage return, space and the no-break space.
\<close>

definition is_word :: "char \<Rightarrow> bool" where
  "is_word c =
     (let n = (of_char c :: nat)
      in (48 \<le> n \<and> n \<le> 57) \<or> (65 \<le> n \<and> n \<le> 90) \<or> n = 95 \<or> (97 \<le> n \<and> n \<le> 122))"

definition is_space :: "char \<Rightarrow> bool" where
  "is_space c = ((of_char c :: nat) \<in> {9, 10, 11, 12, 13, 32, 160})"

text \<open>
  The values a property of the metadata or of the render context can have: the fields of
  the metadata block are free-form strings, an empty field is \<^verbatim>\<open>null\<close>, and reading a
  property that is not there gives \<^verbatim>\<open>undefined\<close>. An object is modelled by its property
  read: \<open>data key\<close> is the value of the JavaScript expression \<^verbatim>\<open>data[key]\<close>.
\<close>

datatype jsval = JUndefined | JNull | JStr string

type_synonym jsobj = "string \<Rightarrow> jsval"

text \<open>\<^verbatim>\<open>ToBoolean\<close>, as used by \<^verbatim>\<open>?:\<close>, \<^verbatim>\<open>||\<close> and \<^verbatim>\<open>if\<close>.\<close>

fun truthy :: "jsval \<Rightarrow> bool" where
  "truthy JUndefined = False"
| "truthy JNull = False"
| "truthy (JStr s) = (s \<noteq> [])"

text \<open>\<^verbatim>\<open>a || b\<close>.\<close>

definition js_or :: "jsval \<Rightarrow> jsval \<Rightarrow> jsval" where
  "js_or a b = (if truthy a then a else b)"

text \<open>\<^verbatim>\<open>ToString\<close>, applied by \<^verbatim>\<open>String.prototype.replace\<close> to what its callback returns.\<close>

fun js_to_string :: "jsval \<Rightarrow> string" where
  "js_to_string JUndefined = ''undefined''"
| "js_to_string JNull = ''null''"
| "js_to_string (JStr s) = s"

section \<open>Global replacement with a callback\<close>

text \<open>
  \<^verbatim>\<open>str.replace(/re/g, fn)\<close> looks for the leftmost match from the current position; where
  the expression does not match, the character is copied and the search moves one character
  on; after a match the search resumes behind it, and the text returned by the callback is
  not searched again. A matcher gives, for the text at the current position, what the
  capture groups hold and the text behind the match. The comparison of lengths keeps the
  scan total for an arbitrary matcher; the three expressions of \<^verbatim>\<open>build.js\<close> never match
  the empty string (lemmas \<open>match_if_shorter\<close>, \<open>match_placeholder_shorter\<close>,
  \<open>match_img_shorter\<close>), so for them it is always true.
\<close>

datatype 'm piece = Lit char | Match 'm

type_synonym 'm matcher = "string \<Rightarrow> ('m \<times> string) option"

fun scan :: "'m matcher \<Rightarrow> string \<Rightarrow> 'm piece list" where
  "scan m [] = []"
| "scan m (c # cs) =
     (case m (c # cs) of
        None \<Rightarrow> Lit c # scan m cs
      | Some (x, rest) \<Rightarrow>
          if length rest < Suc (length cs) then Match x # scan m rest
          else Lit c # scan m cs)"

fun emit :: "('m \<Rightarrow> string) \<Rightarrow> 'm piece \<Rightarrow> string" where
  "emit f (Lit c) = [c]"
| "emit f (Match x) = f x"

definition replace_all :: "'m matcher \<Rightarrow> ('m \<Rightarrow> string) \<Rightarrow> string \<Rightarrow> string" where
  "replace_all m f s = concat (map (emit f) (scan m s))"

text \<open>A literal at the current position: the text behind it when it is there.\<close>

fun strip_prefix :: "string \<Rightarrow> string \<Rightarrow> string option" where
  "strip_prefix [] s = Some s"
| "strip_prefix (p # ps) [] = None"
| "strip_prefix (p # ps) (c # cs) = (if p = c then strip_prefix ps cs else None)"

text \<open>
  The lazy \<^verbatim>\<open>[\s\S]*?\<close> followed by a literal: the shortest text after which the literal
  stands, tried from no character upwards.
\<close>

fun lazy_until :: "string \<Rightarrow> string \<Rightarrow> (string \<times> string) option" where
  "lazy_until lit [] = None"
| "lazy_until lit (c # cs) =
     (case strip_prefix lit (c # cs) of
        Some rest \<Rightarrow> Some ([], rest)
      | None \<Rightarrow> map_option (\<lambda>(b, rest). (c # b, rest)) (lazy_until lit cs))"

section \<open>Template Renderer\<close>

text \<open>
  \<^verbatim>\<open>/\{\{#if (\w+)\}\}([\s\S]*?)\{\{\/if\}\}/\<close> at the current position. The greedy
  \<^verbatim>\<open>\w+\<close> takes the longest run of word characters; giving one back never helps, as the
  character after a shorter key is a word character and not a brace.
\<close>

definition match_if :: "(string \<times> string) matcher" where
  "match_if s =
     (case strip_prefix ''{{#if '' s of
        None \<Rightarrow> None
      | Some r \<Rightarrow>
          let key = takeWhile is_word r in
          if key = [] then None
          else (case strip_prefix ''}}'' (dropWhile is_word r) of
                  None \<Rightarrow> None
                | Some r2 \<Rightarrow>
                    (case lazy_until ''{{/if}}'' r2 of
                       None \<Rightarrow> None
                     | Some (block, rest) \<Rightarrow> Some ((key, block), rest))))"

text \<open>\<^verbatim>\<open>(_, key, block) => (data[key] ? block : "")\<close>\<close>

definition processConditionals :: "string \<Rightarrow> jsobj \<Rightarrow> string" where
  "processConditionals html data =
     replace_all match_if (\<lambda>(key, block). if truthy (data key) then block else []) html"

text \<open>\<^verbatim>\<open>/\{\{(\w+)\}\}/\<close> at the current position.\<close>

definition match_placeholder :: "string matcher" where
  "match_placeholder s =
     (case strip_prefix ''{{'' s of
        None \<Rightarrow> None
      | Some r \<Rightarrow>
          let key = takeWhile is_word r in
          if key = [] then None
          else (case strip_prefix ''}}'' (dropWhile is_word r) of
                  None \<Rightarrow> None
                | Some rest \<Rightarrow> Some (key, rest)))"

text \<open>\<^verbatim>\<open>(match, key) => data[key] != null ? data[key] : ""\<close>\<close>

definition replacePlaceholders :: "string \<Rightarrow> jsobj \<Rightarrow> string" where
  "replacePlaceholders html data =
     replace_all match_placeholder
       (\<lambda>key. if data key \<noteq> JNull \<and> data key \<noteq> JUndefined
              then js_to_string (data key) else []) html"

text \<open>
  The two lines of \<^verbatim>\<open>compile\<close> that render the template:
  \<^verbatim>\<open>let output = processConditionals(template, data);
  output = replacePlaceholders(output, data);\<close>
\<close>

definition renderTemplate :: "string \<Rightarrow> jsobj \<Rightarrow> string" where
  "renderTemplate template data =
     (let output = processConditionals template data
      in replacePlaceholders output data)"


definition if_region :: "string \<Rightarrow> string \<Rightarrow> string" where
  "if_region key block = ''{{#if '' @ key @ ''}}'' @ block @ ''{{/if}}''"


definition placeholder :: "string \<Rightarrow> string" where
  "placeholder name = ''{{'' @ name @ ''}}''"


section \<open>Reading time\<close>

text \<open>\<^verbatim>\<open>String.prototype.trim\<close>: white space is removed at both ends.\<close>

definition trim :: "string \<Rightarrow> string" where
  "trim s = rev (dropWhile is_space (rev (dropWhile is_space s)))"

text \<open>
  \<^verbatim>\<open>str.split(/\s+/)\<close>: the text is cut at every maximal run of white space. A run at the
  start or at the end leaves an empty piece there, and the empty string gives the one
  piece \<^verbatim>\<open>""\<close>, as the expression does not match the empty string.
\<close>

function split_ws :: "string \<Rightarrow> string list" where
  "split_ws s =
     (let tok = takeWhile (\<lambda>c. \<not> is_space c) s;
          r = dropWhile (\<lambda>c. \<not> is_space c) s
      in if r = [] then [tok] else tok # split_ws (dropWhile is_space r))"
  by pat_completeness auto
termination
proof (relation "measure length")
  show "wf (measure length)" by simp
next
  fix s tok r :: string
  assume r: "r = dropWhile (\<lambda>c. \<not> is_space c) s" and ne: "r \<noteq> []"
  have "is_space (hd r)" using hd_dropWhile[of "\<lambda>c. \<not> is_space c" s] ne by (simp add: r)
  then have "dropWhile is_space r = dropWhile is_space (tl r)" using ne by (cases r) simp_all
  also have "length \<dots> \<le> length (tl r)" by (rule length_dropWhile_le)
  also have "\<dots> < length r" using ne by (cases r) simp_all
  also have "\<dots> \<le> length s" unfolding r by (rule length_dropWhile_le)
  finally show "(dropWhile is_space r, s) \<in> measure length" by simp
qed

declare split_ws.simps [simp del]

text \<open>The decimal text of a non-negative integer, as a template literal prints it.\<close>

definition digit_char :: "nat \<Rightarrow> char" where
  "digit_char d = char_of (48 + d)"

function string_of_nat :: "nat \<Rightarrow> string" where
  "string_of_nat n =
     (if n < 10 then [digit_char n] else string_of_nat (n div 10) @ [digit_char (n mod 10)])"
  by pat_completeness auto
termination
  by (relation "measure id") auto

declare string_of_nat.simps [simp del]

text \<open>
  \<^verbatim>\<open>function readingTime(text) {
    const words = text.trim().split(/\s+/).length;
    const minutes = Math.ceil(words / 230);
    return `${minutes} min read`;
  }\<close>
  The count is a non-negative integer far below \<open>2 ^ 53\<close>, where the quotient of the
  floating-point division rounds up to the exact ceiling, written here on \<^typ>\<open>nat\<close>.
\<close>

definition readingTime :: "string \<Rightarrow> string" where
  "readingTime text =
     (let words = length (split_ws (trim text));
          minutes = (words + 229) div 230
      in string_of_nat minutes @ '' min read'')"

text \<open>
  A body of words: tokens without white space, each but the last followed by a gap of white
  space.
\<close>

definition is_token :: "string \<Rightarrow> bool" where
  "is_token w = (w \<noteq> [] \<and> (\<forall>c \<in> set w. \<not> is_space c))"

definition is_gap :: "string \<Rightarrow> bool" where
  "is_gap g = (g \<noteq> [] \<and> (\<forall>c \<in> set g. is_space c))"

definition words_text :: "(string \<times> string) list \<Rightarrow> string \<Rightarrow> string" where
  "words_text ps w = concat (map (\<lambda>(t, gap). t @ gap) ps) @ w"

section \<open>Base64\<close>

text \<open>
  \<^verbatim>\<open>data.toString("base64")\<close> of a Node buffer is the Base64 encoding of RFC 4648 with
  padding: three bytes give four characters of the alphabet, and a last group of one or two
  bytes is filled with zero bits and padded with \<^verbatim>\<open>=\<close>.
\<close>

type_synonym byte = "8 word"

definition b64_alphabet :: string where
  "b64_alphabet = ''ABCDEFGHIJKLMNOPQRSTUVWXYZabcdefghijklmnopqrstuvwxyz0123456789+/''"

definition b64_char :: "nat \<Rightarrow> char" where
  "b64_char i = b64_alphabet ! (i mod 64)"

fun base64 :: "byte list \<Rightarrow> string" where
  "base64 [] = []"
| "base64 [a] =
     (let n = unat a * 16
      in [b64_char (n div 64), b64_char (n mod 64), CHR ''='', CHR ''=''])"
| "base64 [a, b] =
     (let n = (unat a * 256 + unat b) * 4
      in [b64_char (n div 4096), b64_char (n div 64 mod 64), b64_char (n mod 64), CHR ''=''])"
| "base64 (a # b # c # rest) =
     (let n = unat a * 65536 + unat b * 256 + unat c
      in [b64_char (n div 262144), b64_char (n div 4096 mod 64),
          b64_char (n div 64 mod 64), b64_char (n mod 64)] @ base64 rest)"

text \<open>The decoder of the same RFC: \<open>None\<close> on text that is not a padded Base64 text.\<close>

fun index_of :: "'a \<Rightarrow> 'a list \<Rightarrow> nat option" where
  "index_of x [] = None"
| "index_of x (y # ys) = (if x = y then Some 0 else map_option Suc (index_of x ys))"

definition b64_index :: "char \<Rightarrow> nat option" where
  "b64_index c = index_of c b64_alphabet"

fun base64_decode :: "string \<Rightarrow> byte list option" where
  "base64_decode [] = Some []"
| "base64_decode (a # b # c # d # rest) =
     (if c = CHR ''='' \<and> d = CHR ''='' \<and> rest = [] then
        (case (b64_index a, b64_index b) of
           (Some i, Some j) \<Rightarrow> Some [of_nat ((i * 64 + j) div 16)]
         | _ \<Rightarrow> None)
      else if d = CHR ''='' \<and> rest = [] then
        (case (b64_index a, b64_index b, b64_index c) of
           (Some i, Some j, Some k) \<Rightarrow>
             (let n = (i * 4096 + j * 64 + k) div 4
              in Some [of_nat (n div 256), of_nat (n mod 256)])
         | _ \<Rightarrow> None)
      else
        (case (b64_index a, b64_index b, b64_index c, b64_index d) of
           (Some i, Some j, Some k, Some l) \<Rightarrow>
             (let n = i * 262144 + j * 4096 + k * 64 + l
              in map_option
                   (\<lambda>bs. of_nat (n div 65536) # of_nat (n div 256 mod 256) # of_nat (n mod 256) # bs)
                   (base64_decode rest))
         | _ \<Rightarrow> None))"
| "base64_decode _ = None"

section \<open>The environment of the script\<close>

text \<open>
  What \<^verbatim>\<open>build.js\<close> takes from Node and from its packages is a parameter of the model:
  the file system as the script reads it, the functions of the \<^verbatim>\<open>path\<close> module, the
  front-matter parser \<^verbatim>\<open>gray-matter\<close>, the renderer \<^verbatim>\<open>marked\<close> and the headless browser.
  A read that throws is \<open>None\<close>.
\<close>

record world =
  readFileSync :: "string \<Rightarrow> byte list option"
  readTextSync :: "string \<Rightarrow> string option"
  existsSync :: "string \<Rightarrow> bool"
  readdirSync :: "string \<Rightarrow> string list option"
  size_kb :: "string \<Rightarrow> string"
  path_join :: "string \<Rightarrow> string \<Rightarrow> string"
  path_resolve :: "string \<Rightarrow> string \<Rightarrow> string"
  path_extname :: "string \<Rightarrow> string"
  path_dirname :: "string \<Rightarrow> string"
  path_basename :: "string \<Rightarrow> string \<Rightarrow> string"
  path_isAbsolute :: "string \<Rightarrow> bool"
  matter :: "string \<Rightarrow> (jsobj \<times> string) option"
  marked_parse :: "string \<Rightarrow> string"
  print_pdf :: "string \<Rightarrow> string option"
  dirname :: string

text \<open>
  What a run does to the outside: the lines it prints with \<^verbatim>\<open>console.log\<close>, the lines of
  \<^verbatim>\<open>console.warn\<close> and \<^verbatim>\<open>console.error\<close>, and the files it writes, in order. Creating the
  output directory and writing a file are taken to succeed.
\<close>

record proc =
  stdout :: "string list"
  stderr :: "string list"
  written :: "(string \<times> string) list"

definition proc0 :: proc where
  "proc0 = \<lparr>stdout = [], stderr = [], written = []\<rparr>"

definition log_line :: "string \<Rightarrow> proc \<Rightarrow> proc" where
  "log_line l st = st\<lparr>stdout := stdout st @ [l]\<rparr>"

definition warn_line :: "string \<Rightarrow> proc \<Rightarrow> proc" where
  "warn_line l st = st\<lparr>stderr := stderr st @ [l]\<rparr>"

datatype error = ReadFailed string | ReaddirFailed string | MatterFailed string | PdfFailed string

fun error_text :: "error \<Rightarrow> string" where
  "error_text (ReadFailed p) = ''Error: cannot read '' @ p"
| "error_text (ReaddirFailed p) = ''Error: cannot list '' @ p"
| "error_text (MatterFailed p) = ''Error: cannot parse '' @ p"
| "error_text (PdfFailed p) = ''Error: cannot print '' @ p"

text \<open>
  \<^verbatim>\<open>const CONTENT_DIR = path.join(ROOT, "content");\<close> and the three constants after it, with
  \<^verbatim>\<open>ROOT = __dirname\<close>.
\<close>

definition CONTENT_DIR :: "world \<Rightarrow> string" where
  "CONTENT_DIR w = path_join w (dirname w) ''content''"

definition DIST_DIR :: "world \<Rightarrow> string" where
  "DIST_DIR w = path_join w (dirname w) ''dist''"

definition TEMPLATE_PATH :: "world \<Rightarrow> string" where
  "TEMPLATE_PATH w = path_join w (dirname w) ''template.html''"

definition STYLES_PATH :: "world \<Rightarrow> string" where
  "STYLES_PATH w = path_join w (dirname w) ''styles.css''"

section \<open>Asset Inliner\<close>

definition MIME_TYPES :: "string \<rightharpoonup> string" where
  "MIME_TYPES = map_of
     [(''.png'', ''image/png''),
      (''.jpg'', ''image/jpeg''),
      (''.jpeg'', ''image/jpeg''),
      (''.gif'', ''image/gif''),
      (''.svg'', ''image/svg+xml''),
      (''.webp'', ''image/webp''),
      (''.avif'', ''image/avif'')]"

text \<open>
  \<^verbatim>\<open>String.prototype.toLowerCase\<close> on code units below 256: the letters A to Z and the
  capital letters of Latin-1 move up by 32.
\<close>

definition to_lower :: "char \<Rightarrow> char" where
  "to_lower c =
     (let n = (of_char c :: nat)
      in if (65 \<le> n \<and> n \<le> 90) \<or> (192 \<le> n \<and> n \<le> 222 \<and> n \<noteq> 215) then char_of (n + 32) else c)"

definition toLowerCase :: "string \<Rightarrow> string" where
  "toLowerCase s = map to_lower s"

text \<open>The warning sign of the message, as the three bytes the source file has for it.\<close>

definition warning_sign :: string where
  "warning_sign = [char_of (226 :: nat), char_of (154 :: nat), char_of (160 :: nat)]"

text \<open>
  \<^verbatim>\<open>function toDataUri(filePath) {
    const ext = path.extname(filePath).toLowerCase();
    const mime = MIME_TYPES[ext];
    if (!mime) {
      console.warn(`  (sign) Unsupported image type: ${ext} (${filePath})`);
      return null;
    }
    const data = fs.readFileSync(filePath);
    return `data:${mime};base64,${data.toString("base64")}`;
  }\<close>
  The result is \<open>Inr None\<close> for \<^verbatim>\<open>null\<close> and \<open>Inl\<close> when the read throws.
\<close>

definition toDataUri :: "world \<Rightarrow> string \<Rightarrow> proc \<Rightarrow> (error + string option) \<times> proc" where
  "toDataUri w filePath st =
     (let ext = toLowerCase (path_extname w filePath) in
      case MIME_TYPES ext of
        None \<Rightarrow>
          (Inr None,
           warn_line (''  '' @ warning_sign @ '' Unsupported image type: '' @ ext @
                      '' ('' @ filePath @ '')'') st)
      | Some mime \<Rightarrow>
          if mime = [] then
            (Inr None,
             warn_line (''  '' @ warning_sign @ '' Unsupported image type: '' @ ext @
                        '' ('' @ filePath @ '')'') st)
          else
            (case readFileSync w filePath of
               None \<Rightarrow> (Inl (ReadFailed filePath), st)
             | Some data \<Rightarrow> (Inr (Some (''data:'' @ mime @ '';base64,'' @ base64 data)), st)))"

text \<open>
  \<^verbatim>\<open>function resolveImagePath(src, contentDir) {
    if (src.startsWith("data:") || src.startsWith("http://") || src.startsWith("https://")) {
      return null;
    }
    const resolved = path.resolve(contentDir, src);
    if (fs.existsSync(resolved)) return resolved;
    return null;
  }\<close>
\<close>

definition resolveImagePath :: "world \<Rightarrow> string \<Rightarrow> string \<Rightarrow> string option" where
  "resolveImagePath w src contentDir =
     (if prefix ''data:'' src \<or> prefix ''http://'' src \<or> prefix ''https://'' src then None
      else let resolved = path_resolve w contentDir src
           in if existsSync w resolved then Some resolved else None)"

text \<open>
  \<^verbatim>\<open>/(<img\s[^>]*src=["'])([^"']+)(["'][^>]*>)/gi\<close> at the current position. Letters are
  compared without case. \<open>img_src\<close> is the expression from \<^verbatim>\<open>src=\<close> on: the source is the
  longest run without a quote and must not be empty, a quote follows it, and the tag goes on
  to the next \<^verbatim>\<open>>\<close>; none of the two greedy runs can give a character back, as the
  character after a shorter run is not the one the expression asks for. \<open>img_attrs\<close> is
  the greedy \<^verbatim>\<open>[^>]*\<close> in front of it with its backtracking: one more character is taken
  first, and the rest of the expression is tried at the current place when that fails.
\<close>

definition is_quote :: "char \<Rightarrow> bool" where
  "is_quote c = (c = CHR 0x22 \<or> c = CHR 0x27)"

definition ci_eq :: "string \<Rightarrow> string \<Rightarrow> bool" where
  "ci_eq a b = (toLowerCase a = toLowerCase b)"

definition img_src :: "string \<Rightarrow> ((string \<times> string \<times> string) \<times> string) option" where
  "img_src s =
     (case s of
        s1 # s2 # s3 # s4 # q # r \<Rightarrow>
          if ci_eq [s1, s2, s3, s4] ''src='' \<and> is_quote q then
            (let src = takeWhile (\<lambda>c. \<not> is_quote c) r;
                 r2 = dropWhile (\<lambda>c. \<not> is_quote c) r
             in if src = [] then None
                else (case r2 of
                        [] \<Rightarrow> None
                      | q2 # r3 \<Rightarrow>
                          (case dropWhile (\<lambda>c. c \<noteq> CHR ''>'') r3 of
                             [] \<Rightarrow> None
                           | g # rest \<Rightarrow>
                               Some (([s1, s2, s3, s4, q], src,
                                      q2 # takeWhile (\<lambda>c. c \<noteq> CHR ''>'') r3 @ [g]), rest))))
          else None
      | _ \<Rightarrow> None)"

fun img_attrs :: "string \<Rightarrow> ((string \<times> string \<times> string) \<times> string) option" where
  "img_attrs [] = None"
| "img_attrs (c # cs) =
     (case (if c \<noteq> CHR ''>'' then img_attrs cs else None) of
        Some ((before, src, after), rest) \<Rightarrow> Some ((c # before, src, after), rest)
      | None \<Rightarrow> img_src (c # cs))"

definition match_img :: "(string \<times> string \<times> string) matcher" where
  "match_img s =
     (case s of
        a # b # c # d # e # r \<Rightarrow>
          if ci_eq [a, b, c, d] ''<img'' \<and> is_space e then
            (case img_attrs r of
               None \<Rightarrow> None
             | Some ((before, src, after), rest) \<Rightarrow>
                 Some (([a, b, c, d, e] @ before, src, after), rest))
          else None
      | _ \<Rightarrow> None)"

text \<open>
  The callback of \<^verbatim>\<open>inlineImages\<close>, with the counter and the console as its state. The
  three groups make up the whole match, so \<^verbatim>\<open>match\<close> is \<open>before @ src @ after\<close>.
  \<^verbatim>\<open>(match, before, src, after) => {
    const filePath = resolveImagePath(src, contentDir);
    if (!filePath) return match;
    const dataUri = toDataUri(filePath);
    if (!dataUri) return match;
    count++;
    return `${before}${dataUri}${after}`;
  }\<close>
\<close>

definition inline_callback ::
  "world \<Rightarrow> string \<Rightarrow> string \<times> string \<times> string \<Rightarrow> nat \<times> proc \<Rightarrow> (error + string) \<times> nat \<times> proc" where
  "inline_callback w contentDir m cs =
     (case (m, cs) of ((before, src, after), (count, st)) \<Rightarrow>
        (case resolveImagePath w src contentDir of
           None \<Rightarrow> (Inr (before @ src @ after), count, st)
         | Some filePath \<Rightarrow>
             if filePath = [] then (Inr (before @ src @ after), count, st)
             else (case toDataUri w filePath st of
                     (Inl e, st') \<Rightarrow> (Inl e, count, st')
                   | (Inr None, st') \<Rightarrow> (Inr (before @ src @ after), count, st')
                   | (Inr (Some dataUri), st') \<Rightarrow>
                       if dataUri = [] then (Inr (before @ src @ after), count, st')
                       else (Inr (before @ dataUri @ after), Suc count, st'))))"

text \<open>
  The replacement with a callback that has effects: the callback runs on the matches from
  left to right, and an exception thrown by one ends the replacement.
\<close>

fun replace_run ::
  "('m \<Rightarrow> 's \<Rightarrow> (error + string) \<times> 's) \<Rightarrow> 'm piece list \<Rightarrow> 's \<Rightarrow> (error + string) \<times> 's" where
  "replace_run f [] s = (Inr [], s)"
| "replace_run f (Lit c # ps) s =
     (case replace_run f ps s of
        (Inl e, s') \<Rightarrow> (Inl e, s')
      | (Inr out, s') \<Rightarrow> (Inr (c # out), s'))"
| "replace_run f (Match x # ps) s =
     (case f x s of
        (Inl e, s') \<Rightarrow> (Inl e, s')
      | (Inr t, s') \<Rightarrow>
          (case replace_run f ps s' of
             (Inl e, s'') \<Rightarrow> (Inl e, s'')
           | (Inr out, s'') \<Rightarrow> (Inr (t @ out), s'')))"

text \<open>
  \<^verbatim>\<open>function inlineImages(html, contentDir) {
    let count = 0;
    const result = html.replace(/(<img\s[^>]*src=["'])([^"']+)(["'][^>]*>)/gi, callback);
    if (count) console.log(`  Inlined ${count} image(s)`);
    return result;
  }\<close>
\<close>

definition inlineImages :: "world \<Rightarrow> string \<Rightarrow> string \<Rightarrow> proc \<Rightarrow> (error + string) \<times> proc" where
  "inlineImages w html contentDir st =
     (case replace_run (inline_callback w contentDir) (scan match_img html) (0, st) of
        (Inl e, count, st') \<Rightarrow> (Inl e, st')
      | (Inr result, count, st') \<Rightarrow>
          (Inr result,
           if count \<noteq> 0 then log_line (''  Inlined '' @ string_of_nat count @ '' image(s)'') st'
           else st'))"

section \<open>Document Compiler\<close>

text \<open>
  The cover image, lines 124 to 128:
  \<^verbatim>\<open>let coverImage = frontmatter.cover_image || "";
  if (coverImage) {
    const resolved = resolveImagePath(coverImage, contentDir);
    if (resolved) coverImage = toDataUri(resolved) || coverImage;
  }\<close>
\<close>

definition coverImage :: "world \<Rightarrow> jsobj \<Rightarrow> string \<Rightarrow> proc \<Rightarrow> (error + jsval) \<times> proc" where
  "coverImage w frontmatter contentDir st =
     (case js_or (frontmatter ''cover_image'') (JStr []) of
        JStr src \<Rightarrow>
          if src = [] then (Inr (JStr src), st)
          else (case resolveImagePath w src contentDir of
                  None \<Rightarrow> (Inr (JStr src), st)
                | Some resolved \<Rightarrow>
                    if resolved = [] then (Inr (JStr src), st)
                    else (case toDataUri w resolved st of
                            (Inl e, st') \<Rightarrow> (Inl e, st')
                          | (Inr None, st') \<Rightarrow> (Inr (JStr src), st')
                          | (Inr (Some dataUri), st') \<Rightarrow>
                              (Inr (js_or (JStr dataUri) (JStr src)), st')))
      | v \<Rightarrow> (Inr v, st))"

text \<open>
  The render context, the object literal of lines 130 to 142. A key that the literal does
  not have reads as \<^verbatim>\<open>undefined\<close>.
\<close>

definition render_context :: "jsobj \<Rightarrow> string \<Rightarrow> jsval \<Rightarrow> string \<Rightarrow> string \<Rightarrow> jsobj" where
  "render_context frontmatter markdown cover styles htmlContent =
     (\<lambda>key.
        if key = ''title'' then js_or (frontmatter ''title'') (JStr ''Untitled'')
        else if key = ''subtitle'' then js_or (frontmatter ''subtitle'') (JStr [])
        else if key = ''author'' then js_or (frontmatter ''author'') (JStr [])
        else if key = ''date'' then js_or (frontmatter ''date'') (JStr [])
        else if key = ''category'' then js_or (frontmatter ''category'') (JStr [])
        else if key = ''cover_image'' then cover
        else if key = ''og_image'' then js_or (frontmatter ''og_image'') (JStr [])
        else if key = ''read_time'' then js_or (frontmatter ''read_time'') (JStr (readingTime markdown))
        else if key = ''footer'' then js_or (frontmatter ''footer'') (JStr [])
        else if key = ''styles'' then JStr styles
        else if key = ''content'' then JStr htmlContent
        else JUndefined)"

text \<open>
  \<^verbatim>\<open>compile(inputFile)\<close>: the value is the path of the file written, or the exception that
  ended it.
\<close>

definition compile :: "world \<Rightarrow> string \<Rightarrow> proc \<Rightarrow> (error + string) \<times> proc" where
  "compile w inputFile st =
     (case readTextSync w inputFile of
        None \<Rightarrow> (Inl (ReadFailed inputFile), st)
      | Some raw \<Rightarrow>
     (case matter w raw of
        None \<Rightarrow> (Inl (MatterFailed inputFile), st)
      | Some (frontmatter, markdown) \<Rightarrow>
     (let contentDir = path_dirname w inputFile;
          htmlContent = marked_parse w markdown
      in
     (case readTextSync w (STYLES_PATH w) of
        None \<Rightarrow> (Inl (ReadFailed (STYLES_PATH w)), st)
      | Some styles \<Rightarrow>
     (case readTextSync w (TEMPLATE_PATH w) of
        None \<Rightarrow> (Inl (ReadFailed (TEMPLATE_PATH w)), st)
      | Some template \<Rightarrow>
     (case coverImage w frontmatter contentDir st of
        (Inl e, st1) \<Rightarrow> (Inl e, st1)
      | (Inr cover, st1) \<Rightarrow>
     (let data = render_context frontmatter markdown cover styles htmlContent;
          output = renderTemplate template data
      in
     (case inlineImages w output contentDir st1 of
        (Inl e, st2) \<Rightarrow> (Inl e, st2)
      | (Inr output', st2) \<Rightarrow>
     (let slug = js_to_string
            (js_or (frontmatter ''slug'')
               (JStr (path_basename w inputFile (path_extname w inputFile))));
          outPath = path_join w (DIST_DIR w) (slug @ ''.html'');
          st3 = st2\<lparr>written := written st2 @ [(outPath, output')]\<rparr>
      in (Inr outPath,
          log_line (''  '' @ path_basename w inputFile [] @ '' -> dist/'' @ slug @ ''.html ('' @
                    size_kb w outPath @ '' KB)'') st3))))))))))"

text \<open>
  \<^verbatim>\<open>generatePdf(htmlPath)\<close>: the browser prints the page to the path with \<^verbatim>\<open>.html\<close> at its
  end replaced by \<^verbatim>\<open>.pdf\<close>.
\<close>

definition pdf_path :: "string \<Rightarrow> string" where
  "pdf_path htmlPath =
     (if suffix ''.html'' htmlPath then take (length htmlPath - 5) htmlPath @ ''.pdf''
      else htmlPath)"

definition generatePdf :: "world \<Rightarrow> string \<Rightarrow> proc \<Rightarrow> (error + string) \<times> proc" where
  "generatePdf w htmlPath st =
     (case print_pdf w htmlPath of
        None \<Rightarrow> (Inl (PdfFailed htmlPath), st)
      | Some pdf \<Rightarrow>
          (let pdfPath = pdf_path htmlPath;
               st1 = st\<lparr>written := written st @ [(pdfPath, pdf)]\<rparr>
           in (Inr pdfPath,
               log_line (''  -> dist/'' @ path_basename w pdfPath [] @ '' ('' @
                         size_kb w pdfPath @ '' KB)'') st1)))"

section \<open>Job Runner\<close>

text \<open>
  \<^verbatim>\<open>fs.readdirSync(CONTENT_DIR)
    .filter((f) => f.endsWith(".md"))
    .map((f) => path.join(CONTENT_DIR, f))\<close>
\<close>

definition scan_content :: "world \<Rightarrow> error + string list" where
  "scan_content w =
     (case readdirSync w (CONTENT_DIR w) of
        None \<Rightarrow> Inl (ReaddirFailed (CONTENT_DIR w))
      | Some names \<Rightarrow> Inr (map (path_join w (CONTENT_DIR w)) (filter (suffix ''.md'') names)))"

text \<open>The collect step of \<^verbatim>\<open>main\<close>, lines 169 to 188.\<close>

definition collect :: "world \<Rightarrow> string list \<Rightarrow> error + string list" where
  "collect w args =
     (let buildAll = (''--all'' \<in> set args) in
      if buildAll then scan_content w
      else (let targets = filter (\<lambda>a. \<not> prefix ''--'' a) args in
            if targets \<noteq> [] then
              Inr (map (\<lambda>t. if path_isAbsolute w t then t else path_join w (CONTENT_DIR w) t)
                     targets)
            else scan_content w))"

text \<open>\<^verbatim>\<open>files.map(compile)\<close> and the loop over \<^verbatim>\<open>generatePdf\<close>, one file after the other.\<close>

fun each ::
  "(string \<Rightarrow> proc \<Rightarrow> (error + string) \<times> proc) \<Rightarrow> string list \<Rightarrow> proc \<Rightarrow>
   (error + string list) \<times> proc" where
  "each f [] st = (Inr [], st)"
| "each f (x # xs) st =
     (case f x st of
        (Inl e, st') \<Rightarrow> (Inl e, st')
      | (Inr y, st') \<Rightarrow>
          (case each f xs st' of
             (Inl e, st'') \<Rightarrow> (Inl e, st'')
           | (Inr ys, st'') \<Rightarrow> (Inr (y # ys), st'')))"

text \<open>
  \<^verbatim>\<open>main().catch((err) => { console.error(err); process.exit(1); })\<close>: the result of a run
  is its exit code and what it did.
\<close>

definition uncaught :: "error \<Rightarrow> proc \<Rightarrow> nat \<times> proc" where
  "uncaught e st = (1, warn_line (error_text e) st)"

definition main :: "world \<Rightarrow> string list \<Rightarrow> nat \<times> proc" where
  "main w args =
     (let buildPdf = (''--pdf'' \<in> set args) in
      case collect w args of
        Inl e \<Rightarrow> uncaught e proc0
      | Inr files \<Rightarrow>
          if files = [] then
            (0, log_line ''No markdown files found in content/. Add a .md file to get started.''
                  proc0)
          else
            (let st1 = log_line ([CHR 0x0A] @ ''Building '' @ string_of_nat (length files) @
                                 '' post(s)...'' @ [CHR 0x0A]) proc0
             in case each (compile w) files st1 of
                  (Inl e, st2) \<Rightarrow> uncaught e st2
                | (Inr htmlPaths, st2) \<Rightarrow>
                    if buildPdf then
                      (let st3 = log_line ([CHR 0x0A] @ ''Generating PDFs...'' @ [CHR 0x0A]) st2
                       in case each (generatePdf w) htmlPaths st3 of
                            (Inl e, st4) \<Rightarrow> uncaught e st4
                          | (Inr pdfs, st4) \<Rightarrow>
                              (0, log_line ([CHR 0x0A] @ ''Done.'' @ [CHR 0x0A]) st4))
                    else (0, log_line ([CHR 0x0A] @ ''Done.'' @ [CHR 0x0A]) st2)))"

text \<open>
  A small environment to run the model on: paths are joined with a slash, the extension
  starts at the last dot, and the content directory holds a post, a picture and a bitmap.
\<close>

definition ext_of :: "string \<Rightarrow> string" where
  "ext_of p = (if CHR ''.'' \<in> set p then CHR ''.'' # rev (takeWhile (\<lambda>c. c \<noteq> CHR ''.'') (rev p)) else [])"

definition demo_files :: "(string \<times> byte list) list" where
  "demo_files = [(''/c/a.png'', [137, 80, 78, 71]), (''/c/b.bmp'', [66, 77]), (''/c/SHOT.JPG'', [255, 216, 255])]"

definition demo_world :: "string list \<Rightarrow> world" where
  "demo_world names =
     \<lparr>readFileSync = map_of demo_files,
      readTextSync = (\<lambda>p. None),
      existsSync = (\<lambda>p. p \<in> set (map fst demo_files)),
      readdirSync = (\<lambda>p. if p = ''/r/content'' then Some names else None),
      size_kb = (\<lambda>p. ''1''),
      path_join = (\<lambda>a b. a @ ''/'' @ b),
      path_resolve = (\<lambda>a b. a @ ''/'' @ b),
      path_extname = ext_of,
      path_dirname = (\<lambda>p. ''/c''),
      path_basename = (\<lambda>p e. p),
      path_isAbsolute = (\<lambda>p. prefix ''/'' p),
      matter = (\<lambda>raw. Some (\<lambda>k. JUndefined, raw)),
      marked_parse = (\<lambda>m. m),
      print_pdf = (\<lambda>p. None),
      dirname = ''/r''\<rparr>"

section \<open>Verification\<close>


















lemma not_word_brace [simp]: "\<not> is_word CHR ''}''"
  by (simp add: is_word_def)
















lemma regions_start:
  "concat (map (\<lambda>((key, block), lit). if_region key block @ lit) rs) = [] \<or>
   (\<exists>r. concat (map (\<lambda>((key, block), lit). if_region key block @ lit) rs) = ''{{#if '' @ r)"
  by (cases rs) (auto simp: if_region_def)










lemma not_word_open [simp]: "\<not> is_word CHR ''{''"
  by (simp add: is_word_def)


lemma tokens_start:
  "concat (map (\<lambda>(name, lit). placeholder name @ lit) ts) = [] \<or>
   (\<exists>r. concat (map (\<lambda>(name, lit). placeholder name @ lit) ts) = ''{{'' @ r)"
  by (cases ts) (auto simp: placeholder_def)








lemma dropWhile_all: "(\<forall>x \<in> set xs. P x) \<Longrightarrow> ys = [] \<or> \<not> P (hd ys) \<Longrightarrow> dropWhile P (xs @ ys) = ys"
  by (cases ys) (simp_all add: dropWhile_append2)

lemma takeWhile_all: "(\<forall>x \<in> set xs. P x) \<Longrightarrow> ys = [] \<or> \<not> P (hd ys) \<Longrightarrow> takeWhile P (xs @ ys) = xs"
  by (cases ys) (simp_all add: takeWhile_append2)

lemma split_ws_token: "is_token w \<Longrightarrow> split_ws w = [w]"
proof -
  assume "is_token w"
  then have a: "\<forall>c \<in> set w. \<not> is_space c" by (simp add: is_token_def)
  then have "takeWhile (\<lambda>c. \<not> is_space c) w = w" "dropWhile (\<lambda>c. \<not> is_space c) w = []"
    by simp_all
  then show ?thesis by (subst split_ws.simps) (simp add: Let_def)
qed

lemma split_ws_step:
  assumes "is_token t" "is_gap g" "rest \<noteq> []" "\<not> is_space (hd rest)"
  shows "split_ws (t @ g @ rest) = t # split_ws rest"
proof -
  have g: "g \<noteq> []" "is_space (hd g)" using assms(2) by (auto simp: is_gap_def)
  have tk: "takeWhile (\<lambda>c. \<not> is_space c) (t @ g @ rest) = t"
    using assms(1) g by (intro takeWhile_all) (auto simp: is_token_def)
  have dr: "dropWhile (\<lambda>c. \<not> is_space c) (t @ g @ rest) = g @ rest"
    using assms(1) g by (intro dropWhile_all) (auto simp: is_token_def)
  have ds: "dropWhile is_space (g @ rest) = rest"
    using assms(2,4) by (intro dropWhile_all) (auto simp: is_gap_def)
  show ?thesis
    by (subst split_ws.simps) (simp add: tk dr ds g(1) Let_def)
qed

lemma words_text_hd:
  assumes "\<forall>(t, gap) \<in> set ps. is_token t \<and> is_gap gap" "is_token w"
  shows "words_text ps w \<noteq> [] \<and> \<not> is_space (hd (words_text ps w))"
  using assms by (cases ps) (auto simp: words_text_def is_token_def)

lemma words_text_last:
  assumes "is_token w"
  shows "\<not> is_space (last (words_text ps w))"
  using assms by (simp add: words_text_def is_token_def)

lemma split_ws_words:
  assumes "\<forall>(t, gap) \<in> set ps. is_token t \<and> is_gap gap" "is_token w"
  shows "split_ws (words_text ps w) = map fst ps @ [w]"
  using assms
proof (induction ps)
  case Nil
  then show ?case by (simp add: words_text_def split_ws_token)
next
  case (Cons p ps)
  obtain t g where p: "p = (t, g)" by (metis surj_pair)
  have tg: "is_token t" "is_gap g" using Cons.prems(1) by (simp_all add: p)
  have ps: "\<forall>(t, gap) \<in> set ps. is_token t \<and> is_gap gap" using Cons.prems(1) by simp
  have hd: "words_text ps w \<noteq> []" "\<not> is_space (hd (words_text ps w))"
    using words_text_hd[OF ps Cons.prems(2)] by simp_all
  have "words_text (p # ps) w = t @ g @ words_text ps w"
    by (simp add: words_text_def p)
  then show ?case
    using split_ws_step[OF tg hd] Cons.IH[OF ps Cons.prems(2)] by (simp add: p)
qed

lemma trim_padded:
  assumes "\<forall>c \<in> set lead. is_space c" "\<forall>c \<in> set trail. is_space c"
    and "x \<noteq> []" "\<not> is_space (hd x)" "\<not> is_space (last x)"
  shows "trim (lead @ x @ trail) = x"
proof -
  have a: "dropWhile is_space (lead @ x @ trail) = x @ trail"
    using assms(1,3,4) by (intro dropWhile_all) auto
  have "hd (rev x) = last x" using assms(3) by (simp add: hd_rev)
  then have b: "dropWhile is_space (rev trail @ rev x) = rev x"
    using assms(2,3,5) by (intro dropWhile_all) auto
  show ?thesis by (simp add: trim_def a b)
qed

lemma trim_blank: "\<forall>c \<in> set s. is_space c \<Longrightarrow> trim s = []"
proof -
  assume "\<forall>c \<in> set s. is_space c"
  then have d: "dropWhile is_space s = []" by simp
  show ?thesis unfolding trim_def d by simp
qed

lemma split_ws_nonempty: "split_ws s \<noteq> []"
  by (subst split_ws.simps) (simp add: Let_def)

lemma string_of_nat_1: "string_of_nat (Suc 0) = ''1''"
  by (subst string_of_nat.simps) (simp add: digit_char_def char_of_eq_iff)

lemma string_of_nat_2: "string_of_nat 2 = ''2''"
  by (subst string_of_nat.simps) (simp add: digit_char_def char_of_eq_iff)

lemma string_of_nat_nonempty: "string_of_nat n \<noteq> []"
  by (subst string_of_nat.simps) simp

lemma string_of_nat_zero: "string_of_nat n = ''0'' \<Longrightarrow> n = 0"
proof (cases "n < 10")
  case True
  assume "string_of_nat n = ''0''"
  then have "digit_char n = CHR ''0''" using True by (subst (asm) string_of_nat.simps) simp
  then have "take_bit 8 (48 + n) = (48 :: nat)" by (simp add: digit_char_def char_of_eq_iff)
  moreover have "take_bit 8 (48 + n) = 48 + n"
    using True by (intro take_bit_nat_eq_self) simp
  ultimately show ?thesis by simp
next
  case False
  assume a: "string_of_nat n = ''0''"
  have "length (string_of_nat n) = length (string_of_nat (n div 10)) + 1"
    using False by (subst string_of_nat.simps) simp
  moreover have "length (string_of_nat (n div 10)) > 0"
    using string_of_nat_nonempty by simp
  ultimately show ?thesis using a by simp
qed

lemma ceil_230: "nat \<lceil>real n / 230\<rceil> = (n + 229) div 230"
proof -
  define q where "q = (n + 229) div 230"
  have a: "n \<le> 230 * q" and b: "230 * q < n + 230"
    unfolding q_def by arith+
  have "real n \<le> real (230 * q)" using a by (simp only: of_nat_le_iff)
  then have u: "real n / 230 \<le> of_int (int q)" by simp
  have "real (230 * q) < real (n + 230)" using b by (simp only: of_nat_less_iff)
  then have l: "of_int (int q) - 1 < real n / 230" by simp
  have "\<lceil>real n / 230\<rceil> = int q" by (rule ceiling_unique[OF l u])
  then show ?thesis by (simp add: q_def)
qed

lemma readingTime_count:
  assumes "\<forall>(t, gap) \<in> set ps. is_token t \<and> is_gap gap" "is_token w"
    and "\<forall>c \<in> set lead. is_space c" "\<forall>c \<in> set trail. is_space c"
  shows "readingTime (lead @ words_text ps w @ trail) =
         string_of_nat ((length ps + 1 + 229) div 230) @ '' min read''"
proof -
  have hd: "words_text ps w \<noteq> []" "\<not> is_space (hd (words_text ps w))"
    using words_text_hd[OF assms(1,2)] by simp_all
  have "trim (lead @ words_text ps w @ trail) = words_text ps w"
    by (rule trim_padded[OF assms(3,4) hd words_text_last[OF assms(2)]])
  then show ?thesis
    by (simp add: readingTime_def split_ws_words[OF assms(1,2)])
qed

text \<open>
  Claim C7. Reading time. For a body of \<open>n\<close> words (tokens separated by runs of white
  space, with any white space around them) the reading time is the decimal text of
  \<open>ceil (n / 230)\<close> followed by \<^verbatim>\<open> min read\<close>, and the minutes are at least 1; one word
  and 230 words give \<^verbatim>\<open>1 min read\<close>, 231 words give \<^verbatim>\<open>2 min read\<close>. The render context
  has this text under \<^verbatim>\<open>read_time\<close> when the metadata supply none.
\<close>

theorem readingTime_words:
  assumes "\<forall>(t, gap) \<in> set ps. is_token t \<and> is_gap gap" "is_token w"
    and "\<forall>c \<in> set lead. is_space c" "\<forall>c \<in> set trail. is_space c"
    and "body = lead @ words_text ps w @ trail" "n = length ps + 1"
  shows "readingTime body = string_of_nat (nat \<lceil>real n / 230\<rceil>) @ '' min read'' \<and>
         1 \<le> nat \<lceil>real n / 230\<rceil> \<and>
         (n = 1 \<longrightarrow> readingTime body = ''1 min read'') \<and>
         (n = 230 \<longrightarrow> readingTime body = ''1 min read'') \<and>
         (n = 231 \<longrightarrow> readingTime body = ''2 min read'') \<and>
         (\<not> truthy (frontmatter ''read_time'') \<longrightarrow>
            render_context frontmatter body cover styles htmlContent ''read_time'' =
            JStr (readingTime body))"
proof -
  have r: "readingTime body = string_of_nat ((n + 229) div 230) @ '' min read''"
    unfolding assms(5,6) by (rule readingTime_count[OF assms(1-4)])
  have "1 \<le> (n + 229) div 230" unfolding assms(6) by simp
  then show ?thesis
    by (auto simp: r ceil_230 string_of_nat_1 string_of_nat_2 render_context_def js_or_def)
qed

text \<open>
  Claim C10. An empty body or one of white space only reads \<^verbatim>\<open>1 min read\<close>: the trimmed
  text is empty and splits into one piece. No text at all gives \<^verbatim>\<open>0 min read\<close>.
\<close>

theorem readingTime_blank:
  "((\<forall>c \<in> set text. is_space c) \<longrightarrow> readingTime text = ''1 min read'') \<and>
   readingTime body \<noteq> ''0 min read''"
proof
  show "(\<forall>c \<in> set text. is_space c) \<longrightarrow> readingTime text = ''1 min read''"
  proof
    assume "\<forall>c \<in> set text. is_space c"
    then have "trim text = []" by (rule trim_blank)
    moreover have "split_ws [] = [[]]" by (subst split_ws.simps) simp
    ultimately show "readingTime text = ''1 min read''"
      by (simp add: readingTime_def string_of_nat_1)
  qed
next
  show "readingTime body \<noteq> ''0 min read''"
  proof
    assume a: "readingTime body = ''0 min read''"
    let ?m = "(length (split_ws (trim body)) + 229) div 230"
    have "string_of_nat ?m @ '' min read'' = ''0'' @ '' min read''"
      using a by (simp add: readingTime_def Let_def)
    then have "string_of_nat ?m = ''0''" by (simp only: append_same_eq)
    then have "?m = 0" by (rule string_of_nat_zero)
    moreover have "length (split_ws (trim body)) \<ge> 1"
      using split_ws_nonempty[of "trim body"] by (cases "split_ws (trim body)") simp_all
    ultimately show False by simp
  qed
qed

theorem readingTime_blank_witness:
  "readingTime [] = ''1 min read'' \<and> readingTime [CHR '' '', CHR 0x0A, CHR 0x09] = ''1 min read'' \<and>
   readingTime [] \<noteq> ''0 min read''"
  using readingTime_blank[of "[]" "[]"] readingTime_blank[of "[CHR '' '', CHR 0x0A, CHR 0x09]" "[]"]
  by (simp add: is_space_def)

theorem readingTime_words_witness:
  "readingTime (concat (replicate 229 ''word '') @ ''word'') = ''1 min read'' \<and>
   readingTime (concat (replicate 230 ''word '') @ ''word'') = ''2 min read'' \<and>
   readingTime ''word'' = ''1 min read''"
proof -
  have tk: "is_token ''word''"
    by (simp add: is_token_def is_space_def)
  have ps: "\<forall>(t, gap) \<in> set (replicate k (''word'', '' '')). is_token t \<and> is_gap gap" for k
    using tk by (simp add: is_gap_def is_space_def)
  have sp: "\<forall>c \<in> set ([] :: string). is_space c" by simp
  have body: "concat (replicate k ''word '') @ ''word'' =
      [] @ words_text (replicate k (''word'', '' '')) ''word'' @ []" for k
    by (simp add: words_text_def)
  have a: "readingTime (concat (replicate 229 ''word '') @ ''word'') = ''1 min read''"
    using readingTime_words[where n=230 and frontmatter="\<lambda>k. JUndefined" and cover=JNull
        and styles="[]" and htmlContent="[]", OF ps[of 229] tk sp sp body[of 229],
        THEN conjunct2, THEN conjunct2, THEN conjunct2, THEN conjunct1]
    by simp
  have b: "readingTime (concat (replicate 230 ''word '') @ ''word'') = ''2 min read''"
    using readingTime_words[where n=231 and frontmatter="\<lambda>k. JUndefined" and cover=JNull
        and styles="[]" and htmlContent="[]", OF ps[of 230] tk sp sp body[of 230],
        THEN conjunct2, THEN conjunct2, THEN conjunct2, THEN conjunct2, THEN conjunct1]
    by simp
  have c: "readingTime (concat (replicate 0 ''word '') @ ''word'') = ''1 min read''"
    using readingTime_words[where n=1 and frontmatter="\<lambda>k. JUndefined" and cover=JNull
        and styles="[]" and htmlContent="[]", OF ps[of 0] tk sp sp body[of 0],
        THEN conjunct2, THEN conjunct2, THEN conjunct1]
    by simp
  from a b c show ?thesis by simp
qed

end
